theory Spec2Isabelle
  imports Main "HOL-Library.Sublist"
begin

section \<open>The autocompleter of firebolt-cli\<close>

text \<open>
  A shallow embedding of \<^verbatim>\<open>src/firebolt_cli/completer.py\<close>. A Python \<^verbatim>\<open>str\<close> is a
  \<^typ>\<open>string\<close>, one \<^typ>\<open>char\<close> for each character, so the text of the model is made of
  the 256 characters of \<^typ>\<open>char\<close>. \<^verbatim>\<open>sub in text\<close> is \<^const>\<open>sublist\<close> and
  \<^verbatim>\<open>str.startswith\<close> is \<^const>\<open>prefix\<close>.

  Two functions that the module calls decide what it does and are not code of the
  repository: \<^verbatim>\<open>str.upper\<close>, which maps each character to its uppercase and can change
  the length of a string, and the constructor \<^verbatim>\<open>prompt_toolkit.HTML\<close>, which parses its
  argument as XML and raises \<^verbatim>\<open>ExpatError\<close> when it is not well-formed. Both are
  parameters of the model, the fields of the record \<open>library\<close>, and the theorems hold
  for every library unless they name one.

  The generator \<^verbatim>\<open>get_completions\<close> is the list of the items it yields, in the order it
  yields them, with the exception that ends it, if one does.
\<close>

subsection \<open>Built-in string operations\<close>

text \<open>\<^verbatim>\<open>text.rfind(d)\<close> for a one-character \<^verbatim>\<open>d\<close>: the highest index at which \<^verbatim>\<open>d\<close>
  occurs, and \<^verbatim>\<open>-1\<close> when it does not occur.\<close>

fun rfind :: "string \<Rightarrow> char \<Rightarrow> int" where
  "rfind [] d = - 1"
| "rfind (c # cs) d =
     (let r = rfind cs d
      in if 0 \<le> r then r + 1 else if c = d then 0 else - 1)"

text \<open>\<^verbatim>\<open>s.replace(old, new)\<close> for a one-character \<^verbatim>\<open>old\<close>.\<close>

definition replace :: "string \<Rightarrow> char \<Rightarrow> string \<Rightarrow> string" where
  "replace s old new = concat (map (\<lambda>c. if c = old then new else [c]) s)"

subsection \<open>Data\<close>

text \<open>\<^verbatim>\<open>Completion\<close> is the library's record of the four arguments passed here; an
  \<^verbatim>\<open>HTML\<close> object holds the markup it was built from; \<^verbatim>\<open>Document\<close> carries the whole
  text and the cursor position.\<close>

datatype html = HTML string

record completion =
  label_text :: string
  start_position :: int
  display :: html
  display_meta :: string

record document =
  text_of :: string
  cursor_position :: nat

definition text_before_cursor :: "document \<Rightarrow> string" where
  "text_before_cursor document = take (cursor_position document) (text_of document)"

text \<open>A row of \<^verbatim>\<open>information_schema.columns\<close> as the query selects it:
  table name, column name, data type.\<close>

type_synonym row = "string \<times> string \<times> string"

text \<open>The attributes of \<^verbatim>\<open>FireboltAutoCompleter\<close>. The thread is not part of the state:
  the loader is a transition of its own below.\<close>

record completer =
  column_names :: "row list"
  suggestions :: "(string \<times> string) list"

text \<open>The exceptions: \<^verbatim>\<open>FireboltError\<close> (any subclass) from the cursor,
  \<^verbatim>\<open>ExpatError\<close> from the \<^verbatim>\<open>HTML\<close> constructor, and any other.\<close>

datatype exn = FireboltError | ExpatError | OtherException string

text \<open>What the cursor does on a statement (\<^verbatim>\<open>execute\<close>, then \<^verbatim>\<open>fetchall\<close>): it returns
  rows or raises.\<close>

type_synonym cursor = "string \<Rightarrow> exn + row list"

text \<open>The two library functions: \<open>upper s\<close> is \<^verbatim>\<open>s.upper()\<close>, and \<open>parses value\<close> holds
  when \<^verbatim>\<open>HTML(value)\<close> returns, that is when \<^verbatim>\<open>minidom.parseString\<close> accepts
  \<^verbatim>\<open><html-root>value</html-root>\<close>.\<close>

record library =
  upper :: "string \<Rightarrow> string"
  parses :: "string \<Rightarrow> bool"

subsection \<open>The functions of the module\<close>

text \<open>The call \<^verbatim>\<open>HTML(value)\<close>.\<close>

definition new_HTML :: "library \<Rightarrow> string \<Rightarrow> exn + html" where
  "new_HTML lib value = (if parses lib value then Inr (HTML value) else Inl ExpatError)"

text \<open>The string that \<^verbatim>\<open>prepare_display_html\<close> formats, and the function itself.\<close>

definition display_markup :: "string \<Rightarrow> nat \<Rightarrow> string" where
  "display_markup text offset =
     ''<b><style color='red'>'' @ take offset text @ ''</style></b>''
     @ replace (replace (drop offset text) CHR ''<'' ''&#60;'') CHR ''>'' ''&#62;''"

definition prepare_display_html :: "library \<Rightarrow> string \<Rightarrow> nat \<Rightarrow> exn + html" where
  "prepare_display_html lib text offset = new_HTML lib (display_markup text offset)"

text \<open>\<^verbatim>\<open>extract_last_word\<close>: \<^verbatim>\<open>max\<close> of the list of the seven positions is \<^const>\<open>Max\<close> of
  its elements, and \<^verbatim>\<open>text[last_position + 1:]\<close> drops that many characters
  (\<^verbatim>\<open>last_position\<close> is at least \<^verbatim>\<open>-1\<close>).\<close>

definition delimiters :: "char list" where
  "delimiters = [CHR '' '', CHR '','', CHR 0x0A, CHR '')'', CHR '';'', CHR ''('', CHR ''.'']"

definition extract_last_word :: "string \<Rightarrow> string" where
  "extract_last_word text =
     (let last_position = Max (set (map (rfind text) delimiters))
      in drop (nat (last_position + 1)) text)"

text \<open>\<^verbatim>\<open>__init__\<close>. \<^verbatim>\<open>KEYWORDS\<close> and \<^verbatim>\<open>FUNCTIONS\<close> are the two lists of
  \<^verbatim>\<open>firebolt_cli.keywords\<close>, taken as parameters.\<close>

definition init :: "string list \<Rightarrow> string list \<Rightarrow> completer" where
  "init KEYWORDS FUNCTIONS =
     \<lparr>column_names = [],
      suggestions = map (\<lambda>keyword. (keyword, ''KEYWORD'')) KEYWORDS
                    @ map (\<lambda>function. (function, ''FUNCTION'')) FUNCTIONS\<rparr>"

definition query :: string where
  "query = ''SELECT table_name, column_name, data_type FROM information_schema.columns''"

text \<open>\<^verbatim>\<open>populate_table_and_column_names\<close>, the body of the thread. \<^verbatim>\<open>list(set(...))\<close>
  lists the distinct table names in the iteration order of a Python set, which the
  language leaves open: \<open>list_of_set\<close> is that order, a parameter. The result is the
  state after the call and the exception that leaves the function, if one does.\<close>

definition populate_table_and_column_names ::
  "(string list \<Rightarrow> string list) \<Rightarrow> cursor \<Rightarrow> completer \<Rightarrow> completer \<times> exn option" where
  "populate_table_and_column_names list_of_set cursor self =
     (case cursor query of
        Inr data \<Rightarrow>
          (let table_names = list_of_set (map (\<lambda>(tb_name, column_name, column_type). tb_name) data)
           in (self\<lparr>column_names := data,
                    suggestions := suggestions self
                      @ map (\<lambda>table_name. (table_name, ''TABLE'')) table_names\<rparr>,
               None))
      | Inl FireboltError \<Rightarrow> (self, None)
      | Inl e \<Rightarrow> (self, Some e))"

text \<open>The list \<^verbatim>\<open>current_suggestions\<close> built in \<^verbatim>\<open>get_completions\<close>.\<close>

definition current_suggestions :: "completer \<Rightarrow> document \<Rightarrow> (string \<times> string) list" where
  "current_suggestions self document =
     suggestions self
     @ map (\<lambda>(tb_name, column_name, column_type).
              (column_name, ''COLUMN ('' @ column_type @ '', '' @ tb_name @ '')''))
         (filter (\<lambda>(tb_name, column_name, column_type). sublist tb_name (text_of document))
            (column_names self))"

text \<open>The \<^verbatim>\<open>for\<close> loop of \<^verbatim>\<open>get_completions\<close> over the remaining suggestions;
  \<^verbatim>\<open>continue\<close> is the recursive call without an item. The arguments of \<^verbatim>\<open>Completion\<close>
  are evaluated before the item is yielded, so an exception of \<^verbatim>\<open>prepare_display_html\<close>
  ends the generator after the items yielded so far. The method does not read its
  argument \<^verbatim>\<open>complete_event\<close>, which the model leaves out.\<close>

fun emit ::
  "library \<Rightarrow> string \<Rightarrow> nat \<Rightarrow> (string \<times> string) list \<Rightarrow> completion list \<times> exn option" where
  "emit lib last_word offset [] = ([], None)"
| "emit lib last_word offset ((label, meta) # rest) =
     (if \<not> prefix last_word (upper lib label) then emit lib last_word offset rest
      else case prepare_display_html lib label offset of
             Inl e \<Rightarrow> ([], Some e)
           | Inr shown \<Rightarrow>
               (case emit lib last_word offset rest of
                  (items, raised) \<Rightarrow>
                    (\<lparr>label_text = label,
                      start_position = - int offset,
                      display = shown,
                      display_meta = meta\<rparr> # items, raised)))"

definition get_completions ::
  "library \<Rightarrow> completer \<Rightarrow> document \<Rightarrow> completion list \<times> exn option" where
  "get_completions lib self document =
     (let last_word = upper lib (extract_last_word (text_before_cursor document))
      in if length last_word = 0 then ([], None)
         else emit lib last_word (length last_word) (current_suggestions self document))"

text \<open>A call of \<^verbatim>\<open>get_completions\<close> as a transition of the object: what the generator
  does and the state after the call. The method assigns to no attribute of \<^verbatim>\<open>self\<close>, and
  \<^verbatim>\<open>self.suggestions + [...]\<close> builds a new list.\<close>

definition complete ::
  "library \<Rightarrow> completer \<Rightarrow> document \<Rightarrow> (completion list \<times> exn option) \<times> completer" where
  "complete lib self document = (get_completions lib self document, self)"

subsection \<open>Sessions, and names for stating the properties\<close>

text \<open>The front end calls \<^verbatim>\<open>get_completions\<close> once for each keystroke: a session is the
  list of the documents of these calls, made one after the other on the same object.\<close>

fun complete_all ::
  "library \<Rightarrow> completer \<Rightarrow> document list
     \<Rightarrow> (completion list \<times> exn option) list \<times> completer" where
  "complete_all lib self [] = ([], self)"
| "complete_all lib self (document # documents) =
     (case complete lib self document of
        (result, self') \<Rightarrow>
          (case complete_all lib self' documents of
             (others, self'') \<Rightarrow> (result # others, self'')))"

text \<open>The \<^verbatim>\<open>Completion\<close> that the loop body yields for a suggestion whose markup parses.\<close>

definition completion_of :: "nat \<Rightarrow> string \<times> string \<Rightarrow> completion" where
  "completion_of offset suggestion =
     \<lparr>label_text = fst suggestion,
      start_position = - int offset,
      display = HTML (display_markup (fst suggestion) offset),
      display_meta = snd suggestion\<rparr>"

text \<open>The candidate universe in the words of the specification, to compare with
  \<open>current_suggestions\<close>: the static catalog, then one \<open>COLUMN\<close> suggestion for each row
  whose table name is a substring of the full text.\<close>

definition spec_candidate_universe ::
  "string list \<Rightarrow> string list \<Rightarrow> row list \<Rightarrow> document \<Rightarrow> (string \<times> string) list" where
  "spec_candidate_universe KEYWORDS FUNCTIONS rows document =
     map (\<lambda>keyword. (keyword, ''KEYWORD'')) KEYWORDS
     @ map (\<lambda>function. (function, ''FUNCTION'')) FUNCTIONS
     @ map (\<lambda>(tb_name, column_name, column_type).
              (column_name, ''COLUMN ('' @ column_type @ '', '' @ tb_name @ '')''))
         (filter (\<lambda>(tb_name, column_name, column_type). sublist tb_name (text_of document)) rows)"

subsection \<open>A library and cursors for the examples\<close>

text \<open>\<^verbatim>\<open>str.upper\<close> on ASCII text: \<^verbatim>\<open>a\<close>..\<^verbatim>\<open>z\<close> go to \<^verbatim>\<open>A\<close>..\<^verbatim>\<open>Z\<close> and every other ASCII
  character stays. The examples apply it to ASCII strings only.\<close>

definition ascii_upper_char :: "char \<Rightarrow> char" where
  "ascii_upper_char c =
     (case map_of (zip ''abcdefghijklmnopqrstuvwxyz'' ''ABCDEFGHIJKLMNOPQRSTUVWXYZ'') c of
        Some u \<Rightarrow> u
      | None \<Rightarrow> c)"

definition ascii_upper :: "string \<Rightarrow> string" where
  "ascii_upper s = map ascii_upper_char s"

text \<open>
  The well-formedness that the XML parser checks on the content of the root element, as a
  scanner that reads one character at a time and keeps the names of the open elements:
  character data (without \<^verbatim>\<open>]]>\<close>), the five predefined entity references and
  character references, elements with attributes, comments, \<^verbatim>\<open>CDATA\<close> sections and
  processing instructions, over characters below 256. A name with a colon is rejected;
  the parser, which resolves namespaces, accepts one whose prefix is declared. A
  \<^verbatim>\<open>DOCTYPE\<close> is rejected, as the parser rejects it inside the root element.
\<close>

definition code :: "char \<Rightarrow> nat" where
  "code c = of_char c"

definition letter :: "char \<Rightarrow> bool" where
  "letter c \<longleftrightarrow>
     (0x41 \<le> code c \<and> code c \<le> 0x5A) \<or> (0x61 \<le> code c \<and> code c \<le> 0x7A)
     \<or> (0xC0 \<le> code c \<and> code c \<le> 0xD6) \<or> (0xD8 \<le> code c \<and> code c \<le> 0xF6)
     \<or> 0xF8 \<le> code c"

definition digit :: "char \<Rightarrow> bool" where
  "digit c \<longleftrightarrow> 0x30 \<le> code c \<and> code c \<le> 0x39"

definition hex_digit :: "char \<Rightarrow> bool" where
  "hex_digit c \<longleftrightarrow>
     digit c \<or> (0x41 \<le> code c \<and> code c \<le> 0x46) \<or> (0x61 \<le> code c \<and> code c \<le> 0x66)"

definition name_start :: "char \<Rightarrow> bool" where
  "name_start c \<longleftrightarrow> letter c \<or> c = CHR ''_''"

definition name_char :: "char \<Rightarrow> bool" where
  "name_char c \<longleftrightarrow>
     name_start c \<or> digit c \<or> c = CHR ''-'' \<or> c = CHR ''.'' \<or> code c = 0xB7"

definition space :: "char \<Rightarrow> bool" where
  "space c \<longleftrightarrow> code c = 0x20 \<or> code c = 0x09 \<or> code c = 0x0A \<or> code c = 0x0D"

definition valid_char :: "char \<Rightarrow> bool" where
  "valid_char c \<longleftrightarrow> 0x20 \<le> code c \<or> code c = 0x09 \<or> code c = 0x0A \<or> code c = 0x0D"

definition valid_code :: "nat \<Rightarrow> bool" where
  "valid_code n \<longleftrightarrow>
     n = 0x09 \<or> n = 0x0A \<or> n = 0x0D \<or> (0x20 \<le> n \<and> n \<le> 0xD7FF)
     \<or> (0xE000 \<le> n \<and> n \<le> 0xFFFD) \<or> (0x10000 \<le> n \<and> n \<le> 0x10FFFF)"

definition digit_value :: "char \<Rightarrow> nat" where
  "digit_value c =
     (if digit c then code c - 0x30 else if 0x61 \<le> code c then code c - 0x57 else code c - 0x37)"

definition number :: "nat \<Rightarrow> string \<Rightarrow> nat" where
  "number base ds = fold (\<lambda>c n. base * n + digit_value c) ds 0"

definition reference_ok :: "string \<Rightarrow> bool" where
  "reference_ok r \<longleftrightarrow>
     (if r \<in> set [''lt'', ''gt'', ''amp'', ''quot'', ''apos''] then True
      else if take 2 r = ''#x''
        then drop 2 r \<noteq> [] \<and> list_all hex_digit (drop 2 r) \<and> valid_code (number 16 (drop 2 r))
      else if take 1 r = ''#''
        then drop 1 r \<noteq> [] \<and> list_all digit (drop 1 r) \<and> valid_code (number 10 (drop 1 r))
      else False)"

definition reserved_target :: "string \<Rightarrow> bool" where
  "reserved_target n \<longleftrightarrow>
     n \<in> set [''xml'', ''xmL'', ''xMl'', ''xML'', ''Xml'', ''XmL'', ''XMl'', ''XML'']"

datatype xml_state =
    Txt nat
  | Lt
  | Bang string
  | Comment nat
  | CData nat
  | PITarget string
  | PIBody bool
  | PIEnd
  | OpenName string
  | AttrGap string "string list"
  | AttrName string "string list" string
  | AttrEqWait string "string list"
  | AttrValWait string "string list"
  | AttrVal string "string list" char
  | AfterVal string "string list"
  | EmptySlash
  | CloseName string
  | CloseGap
  | Ref string "(string \<times> string list \<times> char) option"

fun step :: "xml_state \<Rightarrow> string list \<Rightarrow> char \<Rightarrow> (xml_state \<times> string list) option" where
  "step (Txt b) stack c =
     (if c = CHR ''<'' then Some (Lt, stack)
      else if c = CHR ''&'' then Some (Ref [] None, stack)
      else if c = CHR '']'' then Some (Txt (min (b + 1) 2), stack)
      else if c = CHR ''>'' \<and> b = 2 then None
      else if valid_char c then Some (Txt 0, stack)
      else None)"
| "step Lt stack c =
     (if c = CHR ''/'' then Some (CloseName [], stack)
      else if c = CHR ''!'' then Some (Bang [], stack)
      else if c = CHR ''?'' then Some (PITarget [], stack)
      else if name_start c then Some (OpenName [c], stack)
      else None)"
| "step (Bang p) stack c =
     (if p @ [c] = ''--'' then Some (Comment 0, stack)
      else if p @ [c] = ''[CDATA['' then Some (CData 0, stack)
      else if prefix (p @ [c]) ''--'' \<or> prefix (p @ [c]) ''[CDATA[''
        then Some (Bang (p @ [c]), stack)
      else None)"
| "step (Comment d) stack c =
     (if d = 2 then (if c = CHR ''>'' then Some (Txt 0, stack) else None)
      else if c = CHR ''-'' then Some (Comment (d + 1), stack)
      else if valid_char c then Some (Comment 0, stack)
      else None)"
| "step (CData b) stack c =
     (if c = CHR '']'' then Some (CData (min (b + 1) 2), stack)
      else if c = CHR ''>'' \<and> b = 2 then Some (Txt 0, stack)
      else if valid_char c then Some (CData 0, stack)
      else None)"
| "step (PITarget n) stack c =
     (if n = [] then (if name_start c then Some (PITarget [c], stack) else None)
      else if name_char c then Some (PITarget (n @ [c]), stack)
      else if reserved_target n then None
      else if c = CHR ''?'' then Some (PIEnd, stack)
      else if space c then Some (PIBody False, stack)
      else None)"
| "step (PIBody q) stack c =
     (if c = CHR ''>'' \<and> q then Some (Txt 0, stack)
      else if c = CHR ''?'' then Some (PIBody True, stack)
      else if valid_char c then Some (PIBody False, stack)
      else None)"
| "step PIEnd stack c = (if c = CHR ''>'' then Some (Txt 0, stack) else None)"
| "step (OpenName n) stack c =
     (if name_char c then Some (OpenName (n @ [c]), stack)
      else if c = CHR ''>'' then Some (Txt 0, n # stack)
      else if c = CHR ''/'' then Some (EmptySlash, stack)
      else if space c then Some (AttrGap n [], stack)
      else None)"
| "step (AttrGap n attrs) stack c =
     (if space c then Some (AttrGap n attrs, stack)
      else if c = CHR ''>'' then Some (Txt 0, n # stack)
      else if c = CHR ''/'' then Some (EmptySlash, stack)
      else if name_start c then Some (AttrName n attrs [c], stack)
      else None)"
| "step (AttrName n attrs a) stack c =
     (if name_char c then Some (AttrName n attrs (a @ [c]), stack)
      else if a \<in> set attrs then None
      else if c = CHR ''='' then Some (AttrValWait n (a # attrs), stack)
      else if space c then Some (AttrEqWait n (a # attrs), stack)
      else None)"
| "step (AttrEqWait n attrs) stack c =
     (if space c then Some (AttrEqWait n attrs, stack)
      else if c = CHR ''='' then Some (AttrValWait n attrs, stack)
      else None)"
| "step (AttrValWait n attrs) stack c =
     (if space c then Some (AttrValWait n attrs, stack)
      else if c = CHR 0x27 \<or> c = CHR 0x22 then Some (AttrVal n attrs c, stack)
      else None)"
| "step (AttrVal n attrs q) stack c =
     (if c = q then Some (AfterVal n attrs, stack)
      else if c = CHR ''<'' then None
      else if c = CHR ''&'' then Some (Ref [] (Some (n, attrs, q)), stack)
      else if valid_char c then Some (AttrVal n attrs q, stack)
      else None)"
| "step (AfterVal n attrs) stack c =
     (if space c then Some (AttrGap n attrs, stack)
      else if c = CHR ''>'' then Some (Txt 0, n # stack)
      else if c = CHR ''/'' then Some (EmptySlash, stack)
      else None)"
| "step EmptySlash stack c = (if c = CHR ''>'' then Some (Txt 0, stack) else None)"
| "step (CloseName n) stack c =
     (if n = [] then (if name_start c then Some (CloseName [c], stack) else None)
      else if name_char c then Some (CloseName (n @ [c]), stack)
      else if c = CHR ''>'' \<or> space c
        then (case stack of
                [] \<Rightarrow> None
              | opened # below \<Rightarrow>
                  if opened = n then Some (if c = CHR ''>'' then Txt 0 else CloseGap, below)
                  else None)
      else None)"
| "step CloseGap stack c =
     (if space c then Some (CloseGap, stack)
      else if c = CHR ''>'' then Some (Txt 0, stack)
      else None)"
| "step (Ref r back) stack c =
     (if c = CHR '';''
        then (if reference_ok r
              then Some (case back of None \<Rightarrow> Txt 0 | Some (n, attrs, q) \<Rightarrow> AttrVal n attrs q,
                         stack)
              else None)
      else if name_char c \<or> c = CHR ''#'' then Some (Ref (r @ [c]) back, stack)
      else None)"

fun scan :: "xml_state \<Rightarrow> string list \<Rightarrow> string \<Rightarrow> bool" where
  "scan state stack [] = (case state of Txt b \<Rightarrow> stack = [] | _ \<Rightarrow> False)"
| "scan state stack (c # cs) =
     (case step state stack c of
        None \<Rightarrow> False
      | Some (state', stack') \<Rightarrow> scan state' stack' cs)"

definition well_formed_content :: "string \<Rightarrow> bool" where
  "well_formed_content value = scan (Txt 0) [] value"

definition example_library :: library where
  "example_library = \<lparr>upper = ascii_upper, parses = well_formed_content\<rparr>"

text \<open>A cursor that returns the given rows, one whose query fails with
  \<^verbatim>\<open>FireboltError\<close>, and one that raises another exception.\<close>

definition rows_cursor :: "row list \<Rightarrow> cursor" where
  "rows_cursor rows statement =
     (if statement = query then Inr rows
      else Inl (OtherException ''unexpected statement''))"

definition users_cursor :: cursor where
  "users_cursor = rows_cursor [(''users'', ''id'', ''int'')]"



section \<open>The tokenizer\<close>

subsection \<open>Facts about \<open>rfind\<close>\<close>

lemma rfind_lower: "- 1 \<le> rfind s d"
  by (induction s) (auto simp: Let_def)

lemma rfind_absent: "d \<notin> set s \<Longrightarrow> rfind s d = - 1"
  by (induction s) (auto simp: Let_def)

lemma rfind_present: "d \<in> set s \<Longrightarrow> 0 \<le> rfind s d"
  by (induction s) (auto simp: Let_def)

lemma rfind_upper: "rfind s d < int (length s)"
  by (induction s) (auto simp: Let_def)

lemma rfind_append: "rfind (pre @ suf) d =
    (if d \<in> set suf then int (length pre) + rfind suf d else rfind pre d)"
proof (induction pre)
  case Nil
  then show ?case by (simp add: rfind_absent)
next
  case (Cons c pre)
  then show ?case
    using rfind_present [of d suf] rfind_lower [of suf d]
    by (auto simp: Let_def)
qed

lemma rfind_last_occurrence: "d \<notin> set suf \<Longrightarrow> rfind (pre @ d # suf) d = int (length pre)"
  using rfind_append [of pre "d # suf" d] by (simp add: rfind_absent Let_def)

lemma rfind_before: "d \<notin> set suf \<Longrightarrow> rfind (pre @ suf) d < int (length pre)"
  using rfind_append [of pre suf d] rfind_upper [of pre d] by simp

lemma last_position_none:
  assumes "set s \<inter> set delimiters = {}"
  shows "Max (set (map (rfind s) delimiters)) = - 1"
proof -
  have "\<forall>d \<in> set delimiters. rfind s d = - 1"
    using assms by (auto intro: rfind_absent)
  then have "set (map (rfind s) delimiters) = {- 1}"
    by (auto simp: delimiters_def)
  then show ?thesis by (simp del: set_map)
qed

lemma last_position_some:
  assumes d: "d \<in> set delimiters" and suf: "set suf \<inter> set delimiters = {}"
  shows "Max (set (map (rfind (pre @ d # suf)) delimiters)) = int (length pre)"
proof (rule Max_eqI)
  show "finite (set (map (rfind (pre @ d # suf)) delimiters))" by simp
next
  fix y assume "y \<in> set (map (rfind (pre @ d # suf)) delimiters)"
  then obtain d' where d': "d' \<in> set delimiters" and y: "y = rfind (pre @ d # suf) d'"
    by auto
  from d' suf have "d' \<notin> set suf" by auto
  then have "rfind ((pre @ [d]) @ suf) d' < int (length (pre @ [d]))"
    by (rule rfind_before)
  with y show "y \<le> int (length pre)" by simp
next
  from d suf have "d \<notin> set suf" by auto
  then have "rfind (pre @ d # suf) d = int (length pre)" by (rule rfind_last_occurrence)
  with d show "int (length pre) \<in> set (map (rfind (pre @ d # suf)) delimiters)"
    by force
qed

lemma extract_last_word_no_delimiter:
  assumes "set s \<inter> set delimiters = {}"
  shows "extract_last_word s = s"
proof -
  have "Max (set (map (rfind s) delimiters)) = - 1"
    using assms by (rule last_position_none)
  then show ?thesis
    unfolding extract_last_word_def Let_def by (simp del: set_map)
qed

lemma extract_last_word_split:
  assumes "d \<in> set delimiters" and "set suf \<inter> set delimiters = {}"
  shows "extract_last_word (pre @ d # suf) = suf"
proof -
  have "Max (set (map (rfind (pre @ d # suf)) delimiters)) = int (length pre)"
    using assms by (rule last_position_some)
  moreover have "nat (int (length pre) + 1) = Suc (length pre)"
    by simp
  ultimately show ?thesis
    unfolding extract_last_word_def Let_def by (simp del: set_map)
qed

lemma extract_example_1: "extract_last_word ''SELECT a, b'' = ''b''"
  by (simp add: extract_last_word_def delimiters_def)

lemma extract_example_2: "extract_last_word ''SELECT '' = ''''"
  by (simp add: extract_last_word_def delimiters_def)

subsection \<open>The last word\<close>

text \<open>
  Claim C4. For every text, \<open>extract_last_word\<close> returns what stands strictly after the
  rightmost occurrence of a delimiter (space, comma, newline, close-paren, semicolon,
  open-paren, period), wherever in the text that occurrence is, and the whole text when
  no delimiter occurs. It returns \<open>b\<close> on \<open>SELECT a, b\<close> and the empty string on
  \<open>SELECT\<close> followed by a space.
\<close>

theorem extract_last_word_after_rightmost_delimiter:
  "(set text \<inter> set delimiters = {} \<longrightarrow> extract_last_word text = text)
   \<and> (\<forall>pre d suf. text = pre @ d # suf \<and> d \<in> set delimiters \<and> set suf \<inter> set delimiters = {}
        \<longrightarrow> extract_last_word text = suf)
   \<and> set delimiters = {CHR '' '', CHR '','', CHR 0x0A, CHR '')'', CHR '';'', CHR ''('', CHR ''.''}
   \<and> extract_last_word ''SELECT a, b'' = ''b''
   \<and> extract_last_word ''SELECT '' = []"
proof (intro conjI allI impI)
  assume "set text \<inter> set delimiters = {}"
  then show "extract_last_word text = text"
    by (rule extract_last_word_no_delimiter)
next
  fix pre d suf
  assume a: "text = pre @ d # suf \<and> d \<in> set delimiters \<and> set suf \<inter> set delimiters = {}"
  then have "extract_last_word (pre @ d # suf) = suf"
    by (intro extract_last_word_split) simp_all
  with a show "extract_last_word text = suf" by simp
next
  show "set delimiters = {CHR '' '', CHR '','', CHR 0x0A, CHR '')'', CHR '';'', CHR ''('', CHR ''.''}"
    by (simp add: delimiters_def)
next
  show "extract_last_word ''SELECT a, b'' = ''b''"
    by (rule extract_example_1)
next
  show "extract_last_word ''SELECT '' = []"
    by (rule extract_example_2)
qed

text \<open>The theorem at \<open>abc\<close>, which has no delimiter, and at \<open>f(x\<close>, split at its
  open-paren.\<close>

theorem extract_last_word_witness:
  "extract_last_word ''f(x'' = ''x'' \<and> extract_last_word ''abc'' = ''abc''"
proof -
  have a: "set ''abc'' \<inter> set delimiters = {}"
    by (simp add: delimiters_def)
  have b: "''f(x'' = ''f'' @ CHR ''('' # ''x'' \<and> CHR ''('' \<in> set delimiters
      \<and> set ''x'' \<inter> set delimiters = {}"
    by (simp add: delimiters_def)
  note t1 = extract_last_word_after_rightmost_delimiter [of "''abc''", THEN conjunct1, rule_format, OF a]
  note t2 = extract_last_word_after_rightmost_delimiter [of "''f(x''", THEN conjunct2, THEN conjunct1,
      rule_format, OF b]
  from t1 t2 show ?thesis by (simp only: simp_thms)
qed

section \<open>The matcher\<close>

subsection \<open>The loop, item by item\<close>

text \<open>The generator yields the completions of the matching candidates, in the order of the
  universe, up to the first one whose markup the library does not parse; there it raises
  \<^verbatim>\<open>ExpatError\<close>.\<close>

lemma emit_items:
  "fst (emit lib w n xs) =
     map (completion_of n)
       (takeWhile (\<lambda>s. parses lib (display_markup (fst s) n))
          (filter (\<lambda>s. prefix w (upper lib (fst s))) xs))"
  by (induction lib w n xs rule: emit.induct)
     (auto simp: completion_of_def prepare_display_html_def new_HTML_def split: prod.splits)

lemma emit_raised:
  "snd (emit lib w n xs) =
     (if list_all (\<lambda>s. parses lib (display_markup (fst s) n))
           (filter (\<lambda>s. prefix w (upper lib (fst s))) xs)
      then None else Some ExpatError)"
  by (induction lib w n xs rule: emit.induct)
     (auto simp: prepare_display_html_def new_HTML_def split: prod.splits)

lemma get_completions_items:
  "fst (get_completions lib self d) =
     (if upper lib (extract_last_word (text_before_cursor d)) = [] then []
      else map (completion_of (length (upper lib (extract_last_word (text_before_cursor d)))))
             (takeWhile
                (\<lambda>s. parses lib (display_markup (fst s)
                        (length (upper lib (extract_last_word (text_before_cursor d))))))
                (filter
                   (\<lambda>s. prefix (upper lib (extract_last_word (text_before_cursor d)))
                           (upper lib (fst s)))
                   (current_suggestions self d))))"
  by (simp add: get_completions_def Let_def emit_items)

lemma get_completions_raised:
  "snd (get_completions lib self d) =
     (if upper lib (extract_last_word (text_before_cursor d)) = [] then None
      else if list_all
                (\<lambda>s. parses lib (display_markup (fst s)
                        (length (upper lib (extract_last_word (text_before_cursor d))))))
                (filter
                   (\<lambda>s. prefix (upper lib (extract_last_word (text_before_cursor d)))
                           (upper lib (fst s)))
                   (current_suggestions self d))
        then None else Some ExpatError)"
  by (simp add: get_completions_def Let_def emit_raised)

lemma takeWhile_all: "list_all P xs \<Longrightarrow> takeWhile P xs = xs"
  by (induction xs) auto

lemma takeWhile_prefix: "prefix (takeWhile P xs) xs"
  by (metis prefixI takeWhile_dropWhile_id)

lemma start_position_of_items:
  assumes "c \<in> set (fst (get_completions lib self d))"
  shows "start_position c
         = - int (length (upper lib (extract_last_word (text_before_cursor d))))"
  using assms
  by (auto simp: get_completions_items completion_of_def split: if_splits dest!: set_takeWhileD)

lemma empty_word_yields_nothing:
  assumes "upper lib (extract_last_word (text_before_cursor d)) = []"
  shows "get_completions lib self d = ([], None)"
  using assms by (simp add: get_completions_def)

lemma no_match_yields_nothing:
  assumes "\<forall>s \<in> set (current_suggestions self d).
      \<not> prefix (upper lib (extract_last_word (text_before_cursor d))) (upper lib (fst s))"
  shows "get_completions lib self d = ([], None)"
proof -
  from assms
  have "filter (\<lambda>s. prefix (upper lib (extract_last_word (text_before_cursor d)))
                   (upper lib (fst s))) (current_suggestions self d) = []"
    by (simp add: filter_empty_conv)
  then have "fst (get_completions lib self d) = []" "snd (get_completions lib self d) = None"
    by (simp_all add: get_completions_items get_completions_raised)
  then show ?thesis by (metis prod.collapse)
qed

subsection \<open>Sessions\<close>

lemma complete_all_state: "snd (complete_all lib self ds) = self"
  by (induction ds) (auto simp: complete_def split: prod.splits)


subsection \<open>The frame of a call\<close>

text \<open>
  Claim C9. A call of \<open>get_completions\<close> leaves the object as it was: the suggestions and
  the rows after the call are those before it, also after any number of calls, so a call
  does the same whatever calls came before it on the same state.
\<close>

theorem complete_leaves_state_unchanged:
  "snd (complete lib self d) = self
   \<and> column_names (snd (complete lib self d)) = column_names self
   \<and> suggestions (snd (complete lib self d)) = suggestions self
   \<and> snd (complete_all lib self ds) = self
   \<and> fst (complete lib (snd (complete_all lib self ds)) d) = fst (complete lib self d)
   \<and> fst (complete lib (snd (complete lib self d')) d) = fst (complete lib self d)"
  by (simp add: complete_all_state) (simp add: complete_def)

section \<open>The loader\<close>

subsection \<open>The loader by cases, and the universe before and after the load\<close>



lemma current_suggestions_init:
  "current_suggestions (init KEYWORDS FUNCTIONS) d =
     map (\<lambda>keyword. (keyword, ''KEYWORD'')) KEYWORDS
     @ map (\<lambda>function. (function, ''FUNCTION'')) FUNCTIONS"
  by (simp add: current_suggestions_def init_def)

lemma current_suggestions_loaded:
  assumes "cursor query = Inr data"
  shows "current_suggestions
           (fst (populate_table_and_column_names los cursor (init KEYWORDS FUNCTIONS))) d =
     map (\<lambda>keyword. (keyword, ''KEYWORD'')) KEYWORDS
     @ map (\<lambda>function. (function, ''FUNCTION'')) FUNCTIONS
     @ map (\<lambda>table_name. (table_name, ''TABLE''))
         (los (map (\<lambda>(tb_name, column_name, column_type). tb_name) data))
     @ map (\<lambda>(tb_name, column_name, column_type).
              (column_name, ''COLUMN ('' @ column_type @ '', '' @ tb_name @ '')''))
         (filter (\<lambda>(tb_name, column_name, column_type). sublist tb_name (text_of d)) data)"
  using assms by (simp add: populate_table_and_column_names_def current_suggestions_def init_def)


subsection \<open>The examples, evaluated\<close>

lemma parses_use: "well_formed_content ''<b><style color='red'>US</style></b>E''"
  by code_simp

lemma parses_users: "well_formed_content ''<b><style color='red'>us</style></b>ers''"
  by code_simp

lemma parses_id: "well_formed_content ''<b><style color='red'>i</style></b>d''"
  by code_simp

lemma parses_greater: "well_formed_content ''<b><style color='red'>a></style></b>b''"
  by code_simp

lemma rejects_less: "\<not> well_formed_content ''<b><style color='red'>a<</style></b>b''"
  by code_simp

lemma rejects_ampersand_ab: "\<not> well_formed_content ''<b><style color='red'>a</style></b>&b''"
  by code_simp

lemma rejects_ampersand_rd: "\<not> well_formed_content ''<b><style color='red'>r</style></b>&d''"
  by code_simp

lemma loaded_rows:
  "fst (populate_table_and_column_names remdups (rows_cursor [(tb, col, ty)])
         (init [''USE''] [''UPPER''])) =
     \<lparr>column_names = [(tb, col, ty)],
      suggestions = [(''USE'', ''KEYWORD''), (''UPPER'', ''FUNCTION''), (tb, ''TABLE'')]\<rparr>"
  by (simp add: populate_table_and_column_names_def rows_cursor_def init_def)

lemma users_loaded:
  "fst (populate_table_and_column_names remdups users_cursor (init [''USE''] [''UPPER''])) =
     \<lparr>column_names = [(''users'', ''id'', ''int'')],
      suggestions = [(''USE'', ''KEYWORD''), (''UPPER'', ''FUNCTION''), (''users'', ''TABLE'')]\<rparr>"
  by (simp add: users_cursor_def loaded_rows)

lemma users_query: "users_cursor query = Inr [(''users'', ''id'', ''int'')]"
  by (simp add: users_cursor_def rows_cursor_def)

lemma word_us:
  "extract_last_word (text_before_cursor \<lparr>text_of = ''us'', cursor_position = 2\<rparr>) = ''us''"
  by (simp add: text_before_cursor_def extract_last_word_def delimiters_def)

lemma users_universe_us:
  "current_suggestions
     (fst (populate_table_and_column_names remdups users_cursor (init [''USE''] [''UPPER''])))
     \<lparr>text_of = ''us'', cursor_position = 2\<rparr>
   = [(''USE'', ''KEYWORD''), (''UPPER'', ''FUNCTION''), (''users'', ''TABLE'')]"
  by (simp add: users_loaded current_suggestions_def sublist_code(3))

lemma users_get_completions_us:
  "get_completions example_library
     (fst (populate_table_and_column_names remdups users_cursor (init [''USE''] [''UPPER''])))
     \<lparr>text_of = ''us'', cursor_position = 2\<rparr>
   = ([\<lparr>label_text = ''USE'', start_position = - 2,
        display = HTML ''<b><style color='red'>US</style></b>E'', display_meta = ''KEYWORD''\<rparr>,
       \<lparr>label_text = ''users'', start_position = - 2,
        display = HTML ''<b><style color='red'>us</style></b>ers'', display_meta = ''TABLE''\<rparr>],
      None)"
  by (simp add: get_completions_def word_us users_universe_us example_library_def
        ascii_upper_def ascii_upper_char_def prepare_display_html_def new_HTML_def
        display_markup_def replace_def parses_use parses_users)


lemma distinct_singleton: "distinct xs \<Longrightarrow> set xs = {x} \<Longrightarrow> xs = [x]"
  by (cases xs) (auto simp: subset_singleton_iff)

lemma word_a_greater:
  "extract_last_word
     (text_before_cursor \<lparr>text_of = ''select x from t where a>'', cursor_position = 24\<rparr>)
   = ''a>''"
  by (simp add: text_before_cursor_def extract_last_word_def delimiters_def)

lemma word_a_less:
  "extract_last_word
     (text_before_cursor \<lparr>text_of = ''select x from t where a<'', cursor_position = 24\<rparr>)
   = ''a<''"
  by (simp add: text_before_cursor_def extract_last_word_def delimiters_def)

lemma word_t_a:
  "extract_last_word (text_before_cursor \<lparr>text_of = ''t a'', cursor_position = 3\<rparr>) = ''a''"
  by (simp add: text_before_cursor_def extract_last_word_def delimiters_def)

lemma word_select_r:
  "extract_last_word
     (text_before_cursor \<lparr>text_of = ''SELECT r FROM users'', cursor_position = 8\<rparr>)
   = ''r''"
  by (simp add: text_before_cursor_def extract_last_word_def delimiters_def)

lemma word_r:
  "extract_last_word (text_before_cursor \<lparr>text_of = ''select r'', cursor_position = 8\<rparr>)
   = ''r''"
  by (simp add: text_before_cursor_def extract_last_word_def delimiters_def)

subsection \<open>A failed load\<close>



section \<open>The candidate universe and its order\<close>

text \<open>
  Claim C1, as stated: the universe of a call is the static catalog followed by the
  \<open>COLUMN\<close> suggestions of the rows whose table is named in the text, and nothing else.
  After the row \<open>(users, id, int)\<close> is loaded, the universe of the text \<open>us\<close> differs
  from that list, and the call yields an item with the detail \<open>TABLE\<close>.
\<close>

theorem table_candidate_counterexample:
  "current_suggestions
     (fst (populate_table_and_column_names remdups users_cursor (init [''USE''] [''UPPER''])))
     \<lparr>text_of = ''us'', cursor_position = 2\<rparr>
   \<noteq> spec_candidate_universe [''USE''] [''UPPER'']
       (column_names
         (fst (populate_table_and_column_names remdups users_cursor (init [''USE''] [''UPPER'']))))
       \<lparr>text_of = ''us'', cursor_position = 2\<rparr>
   \<and> map display_meta
       (fst (get_completions example_library
         (fst (populate_table_and_column_names remdups users_cursor (init [''USE''] [''UPPER''])))
         \<lparr>text_of = ''us'', cursor_position = 2\<rparr>))
     = [''KEYWORD'', ''TABLE'']"
proof
  have "spec_candidate_universe [''USE''] [''UPPER'']
       (column_names
         (fst (populate_table_and_column_names remdups users_cursor (init [''USE''] [''UPPER'']))))
       \<lparr>text_of = ''us'', cursor_position = 2\<rparr>
     = [(''USE'', ''KEYWORD''), (''UPPER'', ''FUNCTION'')]"
    by (simp add: users_loaded spec_candidate_universe_def sublist_code(3))
  then show "current_suggestions
     (fst (populate_table_and_column_names remdups users_cursor (init [''USE''] [''UPPER''])))
     \<lparr>text_of = ''us'', cursor_position = 2\<rparr>
   \<noteq> spec_candidate_universe [''USE''] [''UPPER'']
       (column_names
         (fst (populate_table_and_column_names remdups users_cursor (init [''USE''] [''UPPER'']))))
       \<lparr>text_of = ''us'', cursor_position = 2\<rparr>"
    by (simp add: users_universe_us)
next
  show "map display_meta
       (fst (get_completions example_library
         (fst (populate_table_and_column_names remdups users_cursor (init [''USE''] [''UPPER''])))
         \<lparr>text_of = ''us'', cursor_position = 2\<rparr>))
     = [''KEYWORD'', ''TABLE'']"
    by (simp add: users_get_completions_us)
qed

text \<open>
  Claim C1, amended. Before the load (or after a failed one) the universe is the keywords,
  then the functions. After a successful load, the set of table names being listed without
  repetition, it is the keywords, the functions, one \<open>TABLE\<close> suggestion for each distinct
  table name of the loaded rows, and one \<open>COLUMN\<close> suggestion for each row whose table
  name is a substring of the full text, in row order. The items yielded are an initial part
  of the completions of the matching candidates, in the order of the universe and with
  nothing else among them; they are all of these completions, and no exception is raised,
  when the word is not empty and the markup of every matching candidate parses.
\<close>

theorem candidate_universe_with_tables:
  "current_suggestions (init KEYWORDS FUNCTIONS) d
     = map (\<lambda>keyword. (keyword, ''KEYWORD'')) KEYWORDS
       @ map (\<lambda>function. (function, ''FUNCTION'')) FUNCTIONS
   \<and> (cursor query = Inr data
        \<and> set (los (map (\<lambda>(tb_name, column_name, column_type). tb_name) data))
            = set (map (\<lambda>(tb_name, column_name, column_type). tb_name) data)
        \<and> distinct (los (map (\<lambda>(tb_name, column_name, column_type). tb_name) data))
      \<longrightarrow> (\<exists>table_names.
            distinct table_names
            \<and> set table_names = (\<lambda>(tb_name, column_name, column_type). tb_name) ` set data
            \<and> current_suggestions
                (fst (populate_table_and_column_names los cursor (init KEYWORDS FUNCTIONS))) d
              = map (\<lambda>keyword. (keyword, ''KEYWORD'')) KEYWORDS
                @ map (\<lambda>function. (function, ''FUNCTION'')) FUNCTIONS
                @ map (\<lambda>table_name. (table_name, ''TABLE'')) table_names
                @ map (\<lambda>(tb_name, column_name, column_type).
                         (column_name, ''COLUMN ('' @ column_type @ '', '' @ tb_name @ '')''))
                    (filter (\<lambda>(tb_name, column_name, column_type).
                               sublist tb_name (text_of d)) data)))
   \<and> prefix (fst (get_completions lib self d))
       (map (completion_of (length (upper lib (extract_last_word (text_before_cursor d)))))
          (filter (\<lambda>s. prefix (upper lib (extract_last_word (text_before_cursor d)))
                          (upper lib (fst s)))
             (current_suggestions self d)))
   \<and> (upper lib (extract_last_word (text_before_cursor d)) \<noteq> []
        \<and> list_all
            (\<lambda>s. parses lib (display_markup (fst s)
                    (length (upper lib (extract_last_word (text_before_cursor d))))))
            (filter (\<lambda>s. prefix (upper lib (extract_last_word (text_before_cursor d)))
                            (upper lib (fst s)))
               (current_suggestions self d))
      \<longrightarrow> get_completions lib self d
          = (map (completion_of (length (upper lib (extract_last_word (text_before_cursor d)))))
               (filter (\<lambda>s. prefix (upper lib (extract_last_word (text_before_cursor d)))
                               (upper lib (fst s)))
                  (current_suggestions self d)),
             None))"
proof (intro conjI impI)
  show "current_suggestions (init KEYWORDS FUNCTIONS) d
     = map (\<lambda>keyword. (keyword, ''KEYWORD'')) KEYWORDS
       @ map (\<lambda>function. (function, ''FUNCTION'')) FUNCTIONS"
    by (rule current_suggestions_init)
next
  assume a: "cursor query = Inr data
        \<and> set (los (map (\<lambda>(tb_name, column_name, column_type). tb_name) data))
            = set (map (\<lambda>(tb_name, column_name, column_type). tb_name) data)
        \<and> distinct (los (map (\<lambda>(tb_name, column_name, column_type). tb_name) data))"
  let ?names = "los (map (\<lambda>(tb_name, column_name, column_type). tb_name) data)"
  from a have "distinct ?names" by simp
  moreover from a
  have "set ?names = (\<lambda>(tb_name, column_name, column_type). tb_name) ` set data"
    by simp
  moreover from a have "current_suggestions
                (fst (populate_table_and_column_names los cursor (init KEYWORDS FUNCTIONS))) d
              = map (\<lambda>keyword. (keyword, ''KEYWORD'')) KEYWORDS
                @ map (\<lambda>function. (function, ''FUNCTION'')) FUNCTIONS
                @ map (\<lambda>table_name. (table_name, ''TABLE'')) ?names
                @ map (\<lambda>(tb_name, column_name, column_type).
                         (column_name, ''COLUMN ('' @ column_type @ '', '' @ tb_name @ '')''))
                    (filter (\<lambda>(tb_name, column_name, column_type).
                               sublist tb_name (text_of d)) data)"
    by (intro current_suggestions_loaded) simp
  ultimately show "\<exists>table_names.
            distinct table_names
            \<and> set table_names = (\<lambda>(tb_name, column_name, column_type). tb_name) ` set data
            \<and> current_suggestions
                (fst (populate_table_and_column_names los cursor (init KEYWORDS FUNCTIONS))) d
              = map (\<lambda>keyword. (keyword, ''KEYWORD'')) KEYWORDS
                @ map (\<lambda>function. (function, ''FUNCTION'')) FUNCTIONS
                @ map (\<lambda>table_name. (table_name, ''TABLE'')) table_names
                @ map (\<lambda>(tb_name, column_name, column_type).
                         (column_name, ''COLUMN ('' @ column_type @ '', '' @ tb_name @ '')''))
                    (filter (\<lambda>(tb_name, column_name, column_type).
                               sublist tb_name (text_of d)) data)"
    by blast
next
  show "prefix (fst (get_completions lib self d))
       (map (completion_of (length (upper lib (extract_last_word (text_before_cursor d)))))
          (filter (\<lambda>s. prefix (upper lib (extract_last_word (text_before_cursor d)))
                          (upper lib (fst s)))
             (current_suggestions self d)))"
    by (simp add: get_completions_items map_mono_prefix takeWhile_prefix)
next
  assume a: "upper lib (extract_last_word (text_before_cursor d)) \<noteq> []
        \<and> list_all
            (\<lambda>s. parses lib (display_markup (fst s)
                    (length (upper lib (extract_last_word (text_before_cursor d))))))
            (filter (\<lambda>s. prefix (upper lib (extract_last_word (text_before_cursor d)))
                            (upper lib (fst s)))
               (current_suggestions self d))"
  then have "fst (get_completions lib self d)
      = map (completion_of (length (upper lib (extract_last_word (text_before_cursor d)))))
               (filter (\<lambda>s. prefix (upper lib (extract_last_word (text_before_cursor d)))
                               (upper lib (fst s)))
                  (current_suggestions self d))"
    by (simp add: get_completions_items takeWhile_all)
  moreover from a have "snd (get_completions lib self d) = None"
    by (simp add: get_completions_raised)
  ultimately show "get_completions lib self d
          = (map (completion_of (length (upper lib (extract_last_word (text_before_cursor d)))))
               (filter (\<lambda>s. prefix (upper lib (extract_last_word (text_before_cursor d)))
                               (upper lib (fst s)))
                  (current_suggestions self d)),
             None)"
    by (metis prod.collapse)
qed

text \<open>After the row \<open>(users, id, int)\<close> is loaded, the universe of \<open>us\<close> is \<open>USE\<close>,
  \<open>UPPER\<close> and the table \<open>users\<close>, and the call yields \<open>USE\<close> and \<open>users\<close>.\<close>

theorem candidate_universe_witness:
  "current_suggestions
     (fst (populate_table_and_column_names remdups users_cursor (init [''USE''] [''UPPER''])))
     \<lparr>text_of = ''us'', cursor_position = 2\<rparr>
   = [(''USE'', ''KEYWORD''), (''UPPER'', ''FUNCTION''), (''users'', ''TABLE'')]
   \<and> get_completions example_library
     (fst (populate_table_and_column_names remdups users_cursor (init [''USE''] [''UPPER''])))
     \<lparr>text_of = ''us'', cursor_position = 2\<rparr>
   = ([completion_of 2 (''USE'', ''KEYWORD''), completion_of 2 (''users'', ''TABLE'')], None)"
proof -
  let ?loaded =
    "fst (populate_table_and_column_names remdups users_cursor (init [''USE''] [''UPPER'']))"
  let ?d = "\<lparr>text_of = ''us'', cursor_position = 2\<rparr>"
  note t = candidate_universe_with_tables [where cursor = users_cursor and los = remdups
      and KEYWORDS = "[''USE'']" and FUNCTIONS = "[''UPPER'']" and d = ?d
      and data = "[(''users'', ''id'', ''int'')]" and lib = example_library and self = ?loaded]
  have h: "users_cursor query = Inr [(''users'', ''id'', ''int'')]
        \<and> set (remdups (map (\<lambda>(tb_name, column_name, column_type). tb_name)
              [(''users'', ''id'', ''int'')]))
            = set (map (\<lambda>(tb_name, column_name, column_type). tb_name)
              [(''users'', ''id'', ''int'')])
        \<and> distinct (remdups (map (\<lambda>(tb_name, column_name, column_type). tb_name)
              [(''users'', ''id'', ''int'')]))"
    by (simp add: users_query)
  from t [THEN conjunct2, THEN conjunct1, THEN mp, OF h]
  obtain table_names where dn: "distinct table_names"
    and sn: "set table_names
      = (\<lambda>(tb_name, column_name, column_type). tb_name) ` set [(''users'', ''id'', ''int'')]"
    and u: "current_suggestions ?loaded ?d
              = map (\<lambda>keyword. (keyword, ''KEYWORD'')) [''USE'']
                @ map (\<lambda>function. (function, ''FUNCTION'')) [''UPPER'']
                @ map (\<lambda>table_name. (table_name, ''TABLE'')) table_names
                @ map (\<lambda>(tb_name, column_name, column_type).
                         (column_name, ''COLUMN ('' @ column_type @ '', '' @ tb_name @ '')''))
                    (filter (\<lambda>(tb_name, column_name, column_type).
                               sublist tb_name (text_of ?d)) [(''users'', ''id'', ''int'')])"
    by blast
  from sn have "set table_names = {''users''}" by simp
  with dn have "table_names = [''users'']" by (rule distinct_singleton)
  with u have universe: "current_suggestions ?loaded ?d
      = [(''USE'', ''KEYWORD''), (''UPPER'', ''FUNCTION''), (''users'', ''TABLE'')]"
    by (simp add: sublist_code(3))
  have w: "upper example_library (extract_last_word (text_before_cursor ?d)) = ''US''"
    by (simp add: word_us example_library_def ascii_upper_def ascii_upper_char_def)
  have m: "filter (\<lambda>s. prefix ''US'' (upper example_library (fst s)))
        [(''USE'', ''KEYWORD''), (''UPPER'', ''FUNCTION''), (''users'', ''TABLE'')]
      = [(''USE'', ''KEYWORD''), (''users'', ''TABLE'')]"
    by (simp add: example_library_def ascii_upper_def ascii_upper_char_def)
  have l: "length ''US'' = 2" by simp
  have ok: "upper example_library (extract_last_word (text_before_cursor ?d)) \<noteq> []
        \<and> list_all
            (\<lambda>s. parses example_library (display_markup (fst s)
                    (length (upper example_library (extract_last_word (text_before_cursor ?d))))))
            (filter (\<lambda>s. prefix (upper example_library (extract_last_word (text_before_cursor ?d)))
                            (upper example_library (fst s)))
               (current_suggestions ?loaded ?d))"
    unfolding w universe m l
    by (simp add: example_library_def display_markup_def replace_def parses_use parses_users)
  from t [THEN conjunct2, THEN conjunct2, THEN conjunct2, THEN mp, OF ok]
  have "get_completions example_library ?loaded ?d
      = ([completion_of 2 (''USE'', ''KEYWORD''), completion_of 2 (''users'', ''TABLE'')], None)"
    unfolding w universe m l by simp
  with universe show ?thesis by (simp only: simp_thms)
qed

section \<open>The display markup\<close>

text \<open>
  Claim C2. The completion of a surviving candidate has the start position minus the length
  of the word, and its display emphasises the first characters of the label, as many as the
  word has, with the characters of the label that could be taken for markup escaped. The
  code at a column named \<open>a>b\<close> and the word \<open>a>\<close>: the markup parses, and the \<open>>\<close>
  of the emphasised part is in it as it is.
\<close>

theorem highlighted_prefix_not_escaped:
  "get_completions example_library
     (fst (populate_table_and_column_names remdups (rows_cursor [(''t'', ''a>b'', ''int'')])
            (init [''USE''] [''UPPER''])))
     \<lparr>text_of = ''select x from t where a>'', cursor_position = 24\<rparr>
   = ([\<lparr>label_text = ''a>b'',
        start_position = - 2,
        display = HTML ''<b><style color='red'>a></style></b>b'',
        display_meta = ''COLUMN (int, t)''\<rparr>],
      None)"
  by (simp add: get_completions_def word_a_greater loaded_rows current_suggestions_def
        sublist_code(3) example_library_def ascii_upper_def ascii_upper_char_def
        prepare_display_html_def new_HTML_def display_markup_def replace_def parses_greater)

text \<open>The same label with more brackets after the emphasised part: those are escaped.\<close>

lemma display_markup_escapes_rest_only:
  "display_markup ''a>b<c>'' 2 = ''<b><style color='red'>a></style></b>b&#60;c&#62;''"
  by (simp add: display_markup_def replace_def)

text \<open>
  Claim C8. An empty word yields nothing, a word that matches no candidate yields nothing,
  and no call raises an error. The code at a column named \<open>a<b\<close> and the word \<open>a<\<close>:
  the \<open><\<close> of the emphasised part makes the markup ill-formed, and the call raises
  \<^verbatim>\<open>ExpatError\<close>.
\<close>

theorem markup_error_reaches_caller:
  "get_completions example_library
     (fst (populate_table_and_column_names remdups (rows_cursor [(''t'', ''a<b'', ''int'')])
            (init [''USE''] [''UPPER''])))
     \<lparr>text_of = ''select x from t where a<'', cursor_position = 24\<rparr>
   = ([], Some ExpatError)"
  by (simp add: get_completions_def word_a_less loaded_rows current_suggestions_def
        sublist_code(3) example_library_def ascii_upper_def ascii_upper_char_def
        prepare_display_html_def new_HTML_def display_markup_def replace_def rejects_less)

text \<open>
  Claim C3. A candidate of the universe is yielded, for a word that is not empty, if and
  only if its uppercased label starts with the uppercased word. The code at the row
  \<open>(t, a&b, int)\<close> and the text \<open>t a\<close>: the column \<open>a&b\<close> is in the universe and matches
  the word \<open>a\<close>, and the call yields nothing and raises \<^verbatim>\<open>ExpatError\<close>.
\<close>

theorem matching_candidate_not_yielded:
  "(''a&b'', ''COLUMN (int, t)'')
     \<in> set (current_suggestions
          (fst (populate_table_and_column_names remdups (rows_cursor [(''t'', ''a&b'', ''int'')])
                 (init [''USE''] [''UPPER''])))
          \<lparr>text_of = ''t a'', cursor_position = 3\<rparr>)
   \<and> extract_last_word (text_before_cursor \<lparr>text_of = ''t a'', cursor_position = 3\<rparr>) = ''a''
   \<and> prefix (upper example_library ''a'') (upper example_library ''a&b'')
   \<and> get_completions example_library
       (fst (populate_table_and_column_names remdups (rows_cursor [(''t'', ''a&b'', ''int'')])
              (init [''USE''] [''UPPER''])))
       \<lparr>text_of = ''t a'', cursor_position = 3\<rparr>
     = ([], Some ExpatError)"
  by (simp add: get_completions_def word_t_a loaded_rows current_suggestions_def
        sublist_code(3) example_library_def ascii_upper_def ascii_upper_char_def
        prepare_display_html_def new_HTML_def display_markup_def replace_def
        rejects_ampersand_ab)

text \<open>
  Claim C5. Every loaded row whose table name is a substring of the full text gives a
  \<open>COLUMN\<close> candidate that the call offers. The code at the row \<open>(users, r&d, text)\<close>
  and the text \<open>SELECT r FROM users\<close> with the cursor after \<open>SELECT r\<close>: the table is
  named in the text, the column matches the word \<open>r\<close>, and the call yields nothing and
  raises \<^verbatim>\<open>ExpatError\<close>.
\<close>

theorem column_candidate_not_offered:
  "(''users'', ''r&d'', ''text'')
     \<in> set (column_names
          (fst (populate_table_and_column_names remdups
                 (rows_cursor [(''users'', ''r&d'', ''text'')]) (init [''USE''] [''UPPER'']))))
   \<and> sublist ''users'' (text_of \<lparr>text_of = ''SELECT r FROM users'', cursor_position = 8\<rparr>)
   \<and> get_completions example_library
       (fst (populate_table_and_column_names remdups
              (rows_cursor [(''users'', ''r&d'', ''text'')]) (init [''USE''] [''UPPER''])))
       \<lparr>text_of = ''SELECT r FROM users'', cursor_position = 8\<rparr>
     = ([], Some ExpatError)"
  by (simp add: get_completions_def word_select_r loaded_rows current_suggestions_def
        sublist_code(3) example_library_def ascii_upper_def ascii_upper_char_def
        prepare_display_html_def new_HTML_def display_markup_def replace_def
        rejects_ampersand_rd)

text \<open>
  Claim C10. After a successful load, each distinct table name is a \<open>TABLE\<close> candidate
  offered to every matching word. The code at the table \<open>r&d\<close> and the word \<open>r\<close>: the
  candidate is among the suggestions and matches, and the call yields nothing and raises
  \<^verbatim>\<open>ExpatError\<close>.
\<close>

theorem table_candidate_not_offered:
  "(''r&d'', ''TABLE'')
     \<in> set (suggestions
          (fst (populate_table_and_column_names remdups
                 (rows_cursor [(''r&d'', ''id'', ''int'')]) (init [''USE''] [''UPPER'']))))
   \<and> prefix (upper example_library ''r'') (upper example_library ''r&d'')
   \<and> get_completions example_library
       (fst (populate_table_and_column_names remdups
              (rows_cursor [(''r&d'', ''id'', ''int'')]) (init [''USE''] [''UPPER''])))
       \<lparr>text_of = ''select r'', cursor_position = 8\<rparr>
     = ([], Some ExpatError)"
  by (simp add: get_completions_def word_r loaded_rows current_suggestions_def
        sublist_code(3) example_library_def ascii_upper_def ascii_upper_char_def
        prepare_display_html_def new_HTML_def display_markup_def replace_def
        rejects_ampersand_rd)

end
